theory Spec2Isabelle
  imports Complex_Main
begin

section \<open>The earning engine of main.py\<close>

text \<open>
  The program keeps one session per wallet in a process-wide dictionary, adds a
  time-proportional amount to the session on every metrics query, and tries to mint the
  accumulated amount on chain once five seconds have passed since the last mint.

  Python floats are modelled as the real numbers: every arithmetic identity below is the
  exact one that the floating-point computation approximates. Timestamps are the values of
  \<^verbatim>\<open>datetime.now().timestamp()\<close>; each call of it in the source is one clock reading, passed
  to the model as an argument. Strings are lists of 8-bit characters.
\<close>

subsection \<open>Strategy table and accrual\<close>

record strategy =
  apy :: real
  weight :: real

definition STRATEGIES :: "(string \<times> strategy) list" where
  "STRATEGIES =
    [(''aave_lending'', \<lparr>apy = 85 / 100, weight = 15 / 100\<rparr>),
     (''compound'', \<lparr>apy = 78 / 100, weight = 12 / 100\<rparr>),
     (''uniswap_v3'', \<lparr>apy = 245 / 100, weight = 18 / 100\<rparr>),
     (''curve_stable'', \<lparr>apy = 125 / 100, weight = 10 / 100\<rparr>),
     (''yearn_vaults'', \<lparr>apy = 198 / 100, weight = 15 / 100\<rparr>),
     (''convex'', \<lparr>apy = 312 / 100, weight = 10 / 100\<rparr>),
     (''balancer'', \<lparr>apy = 167 / 100, weight = 8 / 100\<rparr>),
     (''sushiswap'', \<lparr>apy = 289 / 100, weight = 5 / 100\<rparr>),
     (''mev_arb'', \<lparr>apy = 425 / 100, weight = 3 / 100\<rparr>),
     (''flashloan'', \<lparr>apy = 512 / 100, weight = 2 / 100\<rparr>),
     (''governance'', \<lparr>apy = 95 / 100, weight = 1 / 100\<rparr>),
     (''staking'', \<lparr>apy = 142 / 100, weight = 1 / 100\<rparr>)]"

definition AI_BOOST :: real where
  "AI_BOOST = 25 / 10"

text \<open>
  \<^verbatim>\<open>calculate_earnings(principal, seconds)\<close> returns the pair
  \<^verbatim>\<open>(earnings, total_apy)\<close>.
\<close>

definition calculate_earnings :: "real \<Rightarrow> real \<Rightarrow> real \<times> real" where
  "calculate_earnings princ seconds =
    (let total_apy = sum_list (map (\<lambda>s. apy s * weight s) (map snd STRATEGIES)) * AI_BOOST;
         annual_rate = total_apy;
         per_second_rate = annual_rate / (365 * 24 * 3600);
         earnings = princ * per_second_rate * seconds
     in (earnings, total_apy))"

text \<open>
  The effective rate in the words of the specification: the sum over the fixed strategy
  table of \<open>apy\<^sub>i * weight\<^sub>i\<close>, times the fixed boost constant.
\<close>

definition effectiveRate :: real where
  "effectiveRate = (\<Sum>(name, s) \<leftarrow> STRATEGIES. apy s * weight s) * 25 / 10"

subsection \<open>Process configuration\<close>

text \<open>
  The module keeps the Web3 client \<^verbatim>\<open>w3\<close> (here: its provider URL) and the signing account
  \<^verbatim>\<open>admin_account\<close> (here: its address) as globals that are \<^verbatim>\<open>None\<close> until configured.
\<close>

record config =
  w3 :: "string option"
  admin_account :: "string option"
  TOKEN_ADDRESS :: string

text \<open>
  Module initialisation. \<open>is_connected\<close> is what \<^verbatim>\<open>w3.is_connected()\<close> answers at start-up and
  \<open>from_key\<close> is the address that \<^verbatim>\<open>w3.eth.account.from_key\<close> derives from the key.
\<close>

definition module_init :: "string \<Rightarrow> string \<Rightarrow> string \<Rightarrow> bool \<Rightarrow> (string \<Rightarrow> string) \<Rightarrow> config" where
  "module_init ALCHEMY_KEY PRIVATE_KEY token is_connected from_key =
    (if ALCHEMY_KEY \<noteq> [] then
       \<lparr>w3 = Some (''https://eth-mainnet.g.alchemy.com/v2/'' @ ALCHEMY_KEY),
        admin_account = (if PRIVATE_KEY \<noteq> [] \<and> is_connected then Some (from_key PRIVATE_KEY) else None),
        TOKEN_ADDRESS = token\<rparr>
     else \<lparr>w3 = None, admin_account = None, TOKEN_ADDRESS = token\<rparr>)"

subsection \<open>Sessions\<close>

record session =
  start_time :: real
  total_earned :: real
  last_mint_time :: real
  strategies :: "string list"

type_synonym sessions = "string \<rightharpoonup> session"

text \<open>\<^verbatim>\<open>str.lower()\<close> on 8-bit characters: A-Z and the Latin-1 capitals move up by 32.\<close>

definition lower_char :: "char \<Rightarrow> char" where
  "lower_char c =
    (let n = (of_char c :: nat)
     in if (65 \<le> n \<and> n \<le> 90) \<or> (192 \<le> n \<and> n \<le> 222 \<and> n \<noteq> 215)
        then char_of (n + 32) else c)"

definition lower :: "string \<Rightarrow> string" where
  "lower s = map lower_char s"

subsection \<open>The chain as the code sees it\<close>

text \<open>
  The calls into the web3 library and the node are not part of the repository. They are
  parameters of the model: one field per call, \<open>None\<close> when the call raises.
\<close>

record transaction =
  contract :: string
  mint_to :: string
  mint_amount :: int
  tx_from :: string
  tx_nonce :: nat
  tx_gas :: nat
  tx_gasPrice :: int
  tx_chainId :: nat

record receipt =
  status :: nat
  blockNumber :: nat

record node =
  to_checksum_address :: "string \<Rightarrow> string option"
  gas_price :: "nat option"
  get_transaction_count :: "string \<Rightarrow> nat option"
  chain_id :: "nat option"
  build_transaction :: "transaction \<Rightarrow> string option"
  sign_transaction :: "string \<Rightarrow> string option"
  send_raw_transaction :: "string \<Rightarrow> string option"
  wait_for_transaction_receipt :: "string \<Rightarrow> nat \<Rightarrow> receipt option"

text \<open>
  What a request does to the outside world, in order: the calls that reach the node or
  the signer, and the three log lines of \<^verbatim>\<open>get_metrics\<close> that report how a settlement
  attempt ended.
\<close>

datatype event =
    MintCall string real
  | GasPriceQuery
  | TransactionCountQuery string
  | ChainIdQuery
  | BuildTransaction transaction
  | SignTransaction string
  | SendRawTransaction string
  | WaitForReceipt string nat
  | LogMinted string real
  | LogPending string
  | LogMintError string

text \<open>\<^verbatim>\<open>int(x)\<close> on a float truncates towards zero.\<close>

definition py_int :: "real \<Rightarrow> int" where
  "py_int x = (if 0 \<le> x then \<lfloor>x\<rfloor> else \<lceil>x\<rceil>)"

text \<open>
  One statement of the \<^verbatim>\<open>try\<close> block of \<^verbatim>\<open>mint_tokens_to_wallet\<close>: the call is made
  (its events are recorded); if it raises, the \<^verbatim>\<open>except\<close> clause returns \<^verbatim>\<open>None\<close>,
  otherwise the rest of the block runs with the value.
\<close>

definition try_step ::
  "'a option \<Rightarrow> event list \<Rightarrow> ('a \<Rightarrow> string option \<times> event list) \<Rightarrow> string option \<times> event list" where
  "try_step call evs rest =
    (case call of
       None \<Rightarrow> (None, evs)
     | Some v \<Rightarrow> (case rest v of (res, evs') \<Rightarrow> (res, evs @ evs')))"

definition mint_tokens_to_wallet ::
  "config \<Rightarrow> node \<Rightarrow> string \<Rightarrow> real \<Rightarrow> string option \<times> event list" where
  "mint_tokens_to_wallet cfg nd wallet_address amount =
    (case (w3 cfg, admin_account cfg) of
       (Some provider, Some admin) \<Rightarrow>
         (let token_amount = py_int (amount * 10 ^ 18)
          in if token_amount \<le> 0 then (None, [])
             else
               try_step (to_checksum_address nd (TOKEN_ADDRESS cfg)) [] (\<lambda>token_contract.
               try_step (gas_price nd) [GasPriceQuery] (\<lambda>g.
               try_step (get_transaction_count nd admin) [TransactionCountQuery admin] (\<lambda>nonce.
               try_step (to_checksum_address nd wallet_address) [] (\<lambda>recipient.
               try_step (chain_id nd) [ChainIdQuery] (\<lambda>cid.
                 (let tx = \<lparr>contract = token_contract, mint_to = recipient,
                            mint_amount = token_amount, tx_from = admin, tx_nonce = nonce,
                            tx_gas = 200000, tx_gasPrice = py_int (real g * (12 / 10)),
                            tx_chainId = cid\<rparr>
                  in
               try_step (build_transaction nd tx) [BuildTransaction tx] (\<lambda>built.
               try_step (sign_transaction nd built) [SignTransaction built] (\<lambda>raw.
               try_step (send_raw_transaction nd raw) [SendRawTransaction raw] (\<lambda>tx_hash.
               try_step (wait_for_transaction_receipt nd tx_hash 120) [WaitForReceipt tx_hash 120]
                 (\<lambda>rcpt. if status rcpt = 1 then (Some tx_hash, []) else (None, []))))))))))))
     | _ \<Rightarrow> (None, []))"

subsection \<open>The three endpoints\<close>

record EngineRequest =
  walletAddress :: string
  miningContract :: string
  yieldAggregator :: string
  req_strategies :: "string list"

record 'a result =
  returned :: 'a
  sessions_after :: sessions
  events :: "event list"

record start_response =
  success :: bool
  message :: string
  wallet :: string
  ai_boost :: real
  strategies_count :: nat

text \<open>\<open>t_start\<close> and \<open>t_mint\<close> are the two clock readings of \<^verbatim>\<open>start_engine\<close>, in order.\<close>

definition start_engine :: "EngineRequest \<Rightarrow> real \<Rightarrow> real \<Rightarrow> sessions \<Rightarrow> start_response result" where
  "start_engine req t_start t_mint user_sessions =
    (let wlt = lower (walletAddress req)
     in \<lparr>returned = \<lparr>success = True,
                      message = ''10X Earning engine started successfully'',
                      wallet = wlt, ai_boost = AI_BOOST,
                      strategies_count = length STRATEGIES\<rparr>,
         sessions_after = user_sessions(wlt \<mapsto>
           \<lparr>start_time = t_start, total_earned = 0, last_mint_time = t_mint,
            strategies = req_strategies req\<rparr>),
         events = []\<rparr>)"

datatype http_error = HTTPException nat string

record metrics =
  totalProfit :: real
  hourlyRate :: real
  dailyProfit :: real
  activePositions :: nat
  pendingRewards :: real
  total_apy_percent :: real
  metrics_ai_boost :: real

text \<open>What the callee of the \<^verbatim>\<open>try\<close> block in \<^verbatim>\<open>get_metrics\<close> can do: raise or return.\<close>

datatype 'a raised = Raised string | Returned 'a

text \<open>Truth value of an optional string, as \<^verbatim>\<open>if mint_result:\<close> tests it.\<close>

definition truthy :: "string option \<Rightarrow> bool" where
  "truthy r = (case r of None \<Rightarrow> False | Some h \<Rightarrow> h \<noteq> [])"

text \<open>
  The session a metrics query works on: the stored one, or the one it creates first when
  the wallet is not tracked (\<^verbatim>\<open>if wallet not in user_sessions\<close>).
\<close>

definition current_session :: "sessions \<Rightarrow> string \<Rightarrow> real \<Rightarrow> real \<Rightarrow> session" where
  "current_session user_sessions wlt t_start t_mint =
    (case user_sessions wlt of
       None \<Rightarrow> \<lparr>start_time = t_start, total_earned = 0, last_mint_time = t_mint, strategies = []\<rparr>
     | Some s \<Rightarrow> s)"

text \<open>
  The body of \<^verbatim>\<open>get_metrics\<close>, with the function it calls in the \<^verbatim>\<open>try\<close> block as the
  argument \<open>mint\<close>. \<open>t_start\<close> and \<open>t_mint\<close> are the clock readings taken when the session is
  created (they are not read when the wallet is already tracked); \<open>now\<close> is the reading
  after that. The field \<open>total_apy_percent\<close> carries the number that the source renders
  with two decimals and a percent sign.
\<close>

definition get_metrics_with ::
  "config \<Rightarrow> (string \<Rightarrow> real \<Rightarrow> string option raised \<times> event list) \<Rightarrow> string option \<Rightarrow>
   real \<Rightarrow> real \<Rightarrow> real \<Rightarrow> sessions \<Rightarrow> (http_error + metrics) result" where
  "get_metrics_with cfg mint x_wallet_address t_start t_mint now user_sessions =
    (if x_wallet_address = None \<or> x_wallet_address = Some [] then
       \<lparr>returned = Inl (HTTPException 400 ''Wallet address header required''),
        sessions_after = user_sessions, events = []\<rparr>
     else
       (let wlt = lower (case x_wallet_address of Some a \<Rightarrow> a | None \<Rightarrow> []);
            session0 = current_session user_sessions wlt t_start t_mint;
            seconds_running = now - start_time session0;
            seconds_since_mint = now - last_mint_time session0;
            princ = 100000;
            (new_earnings, total_apy) = calculate_earnings princ seconds_running;
            session1 = session0\<lparr>total_earned := total_earned session0 + new_earnings\<rparr>;
            accumulated = total_earned session1;
            (session2, evs) =
              (if seconds_since_mint \<ge> 5 \<and> w3 cfg \<noteq> None \<and> admin_account cfg \<noteq> None then
                 (case mint wlt accumulated of
                    (Returned mint_result, tr) \<Rightarrow>
                      (if truthy mint_result then
                         (session1\<lparr>last_mint_time := now, total_earned := 0\<rparr>,
                          MintCall wlt accumulated # tr @ [LogMinted wlt accumulated])
                       else (session1, MintCall wlt accumulated # tr @ [LogPending wlt]))
                  | (Raised e, tr) \<Rightarrow>
                      (session1, MintCall wlt accumulated # tr @ [LogMintError wlt]))
               else (session1, []));
            hourly_rate = (if seconds_running > 0 then new_earnings / seconds_running * 3600 else 0);
            daily_rate = hourly_rate * 24
        in \<lparr>returned = Inr \<lparr>totalProfit = accumulated, hourlyRate = hourly_rate,
                               dailyProfit = daily_rate, activePositions = length STRATEGIES,
                               pendingRewards = accumulated * (1 / 10),
                               total_apy_percent = total_apy * 100,
                               metrics_ai_boost = AI_BOOST\<rparr>,
            sessions_after = user_sessions(wlt \<mapsto> session2),
            events = evs\<rparr>))"

text \<open>\<^verbatim>\<open>get_metrics\<close> itself: the callee is \<^verbatim>\<open>mint_tokens_to_wallet\<close>, which always returns.\<close>

definition get_metrics ::
  "config \<Rightarrow> node \<Rightarrow> string option \<Rightarrow> real \<Rightarrow> real \<Rightarrow> real \<Rightarrow> sessions \<Rightarrow>
   (http_error + metrics) result" where
  "get_metrics cfg nd =
    get_metrics_with cfg
      (\<lambda>wallet_address amount.
         case mint_tokens_to_wallet cfg nd wallet_address amount of
           (r, tr) \<Rightarrow> (Returned r, tr))"

record stop_response =
  stop_success :: bool
  stop_message :: string

text \<open>\<open>data\<close> is the JSON object of the request body, with string values.\<close>

definition stop_engine :: "(string \<rightharpoonup> string) \<Rightarrow> sessions \<Rightarrow> stop_response result" where
  "stop_engine data user_sessions =
    (let wlt = lower (case data ''walletAddress'' of None \<Rightarrow> [] | Some a \<Rightarrow> a)
     in \<lparr>returned = \<lparr>stop_success = True, stop_message = ''Engine stopped''\<rparr>,
         sessions_after = (if wlt \<in> dom user_sessions then user_sessions(wlt := None)
                           else user_sessions),
         events = []\<rparr>)"

subsection \<open>Runs of requests\<close>

text \<open>
  A request carries what the handler reads from outside: its arguments, its clock readings
  in the order the handler takes them, and for a metrics query the behaviour of the chain.
\<close>

datatype request =
    Start EngineRequest real real
  | Metrics "string option" real real real node
  | Stop "string \<rightharpoonup> string"

fun step :: "config \<Rightarrow> request \<Rightarrow> sessions \<Rightarrow> sessions \<times> event list" where
  "step cfg (Start req t_start t_mint) user_sessions =
     (let r = start_engine req t_start t_mint user_sessions in (sessions_after r, events r))"
| "step cfg (Metrics hdr t_start t_mint now nd) user_sessions =
     (let r = get_metrics cfg nd hdr t_start t_mint now user_sessions
      in (sessions_after r, events r))"
| "step cfg (Stop data) user_sessions =
     (let r = stop_engine data user_sessions in (sessions_after r, events r))"

fun exec :: "config \<Rightarrow> request list \<Rightarrow> sessions \<Rightarrow> sessions" where
  "exec cfg [] user_sessions = user_sessions"
| "exec cfg (r # rs) user_sessions = exec cfg rs (fst (step cfg r user_sessions))"

text \<open>The clock never runs backwards: the readings of a run, from \<open>c\<close> on, do not decrease.\<close>

fun chronological :: "real \<Rightarrow> request list \<Rightarrow> bool" where
  "chronological c [] = True"
| "chronological c (Start req t_start t_mint # rs) =
     (c \<le> t_start \<and> t_start \<le> t_mint \<and> chronological t_mint rs)"
| "chronological c (Metrics hdr t_start t_mint now nd # rs) =
     (c \<le> t_start \<and> t_start \<le> t_mint \<and> t_mint \<le> now \<and> chronological now rs)"
| "chronological c (Stop data # rs) = chronological c rs"

text \<open>The clock after a request.\<close>

fun clock_after :: "real \<Rightarrow> request \<Rightarrow> real" where
  "clock_after c (Start req t_start t_mint) = t_mint"
| "clock_after c (Metrics hdr t_start t_mint now nd) = now"
| "clock_after c (Stop data) = c"

text \<open>The request is a start for wallet \<open>w\<close>.\<close>

fun starts :: "request \<Rightarrow> string \<Rightarrow> bool" where
  "starts (Start req t_start t_mint) w = (lower (walletAddress req) = w)"
| "starts r w = False"

text \<open>The pending amount of a wallet: that of its session; nothing when it has none.\<close>

definition pending :: "sessions \<Rightarrow> string \<Rightarrow> real" where
  "pending user_sessions w = (case user_sessions w of None \<Rightarrow> 0 | Some s \<Rightarrow> total_earned s)"

text \<open>
  Repeated metrics queries with the same header. Each query has its clock readings and the
  behaviour of the chain at that moment; the result is the final session map and all events.
\<close>

fun poll ::
  "config \<Rightarrow> string option \<Rightarrow> (real \<times> real \<times> real \<times> node) list \<Rightarrow> sessions \<Rightarrow>
   sessions \<times> event list" where
  "poll cfg hdr [] user_sessions = (user_sessions, [])"
| "poll cfg hdr ((t_start, t_mint, now, nd) # qs) user_sessions =
     (let r = get_metrics cfg nd hdr t_start t_mint now user_sessions;
          (final, evs) = poll cfg hdr qs (sessions_after r)
      in (final, events r @ evs))"

text \<open>The log line of a confirmed mint.\<close>

fun is_minted :: "event \<Rightarrow> bool" where
  "is_minted (LogMinted w a) = True"
| "is_minted e = False"

text \<open>
  The sessions are consistent with the clock \<open>c\<close>: no amount is negative and no session
  started after \<open>c\<close>.
\<close>

definition within_clock :: "real \<Rightarrow> sessions \<Rightarrow> bool" where
  "within_clock c user_sessions =
    (\<forall>w x. user_sessions w = Some x \<longrightarrow> 0 \<le> total_earned x \<and> start_time x \<le> c)"

subsection \<open>Concrete inputs\<close>

text \<open>A configured process, and chains that confirm, revert, or cannot be reached.\<close>

definition live_config :: config where
  "live_config = module_init ''key'' ''secret'' ''0x8502496d6739dd6e18ced318c4b5fc12a5fb2c2c''
     True (\<lambda>k. ''0xAdmin'')"

definition offline_config :: config where
  "offline_config = module_init [] ''secret'' ''0x8502496d6739dd6e18ced318c4b5fc12a5fb2c2c''
     True (\<lambda>k. ''0xAdmin'')"

definition node_with_receipt :: "receipt option \<Rightarrow> node" where
  "node_with_receipt r =
    \<lparr>to_checksum_address = Some, gas_price = Some 10, get_transaction_count = (\<lambda>a. Some 7),
     chain_id = Some 1, build_transaction = (\<lambda>tx. Some ''tx''),
     sign_transaction = (\<lambda>b. Some ''raw''), send_raw_transaction = (\<lambda>r. Some ''0xhash''),
     wait_for_transaction_receipt = (\<lambda>h t. r)\<rparr>"

definition confirming_node :: node where
  "confirming_node = node_with_receipt (Some \<lparr>status = 1, blockNumber = 100\<rparr>)"

definition reverting_node :: node where
  "reverting_node = node_with_receipt (Some \<lparr>status = 0, blockNumber = 100\<rparr>)"

text \<open>A node that answers no call at the time of the query; addresses are still checked locally.\<close>

definition unreachable_node :: node where
  "unreachable_node =
    \<lparr>to_checksum_address = Some, gas_price = None, get_transaction_count = (\<lambda>a. None),
     chain_id = None, build_transaction = (\<lambda>tx. None), sign_transaction = (\<lambda>b. None),
     send_raw_transaction = (\<lambda>r. None), wait_for_transaction_receipt = (\<lambda>h t. None)\<rparr>"

definition one_session :: sessions where
  "one_session = [''0xabc'' \<mapsto>
     \<lparr>start_time = 0, total_earned = 0, last_mint_time = 0, strategies = []\<rparr>]"

subsection \<open>Facts about the accrual\<close>

lemma total_apy_value:
  "sum_list (map (\<lambda>s. apy s * weight s) (map snd STRATEGIES)) * AI_BOOST = 9639 / 2000"
  by (simp add: STRATEGIES_def AI_BOOST_def)

lemma calculate_earnings_value:
  "calculate_earnings princ seconds =
     (princ * (9639 / 2000 / 31536000) * seconds, 9639 / 2000)"
  unfolding calculate_earnings_def Let_def total_apy_value by simp

lemma effectiveRate_value: "effectiveRate = 9639 / 2000"
  by (simp add: effectiveRate_def STRATEGIES_def)

subsection \<open>Facts about minting\<close>

lemma lower_0xABC: "lower ''0xABC'' = ''0xabc''"
  by code_simp

lemma lower_0xabc: "lower ''0xabc'' = ''0xabc''"
  by code_simp

lemma try_step_events:
  "try_step call evs rest = (res, tr) \<Longrightarrow>
     (call = None \<and> res = None \<and> tr = evs) \<or> (\<exists>v tr'. call = Some v \<and> rest v = (res, tr') \<and> tr = evs @ tr')"
  by (auto simp: try_step_def split: option.splits prod.splits)

lemma mint_skips:
  "py_int (amount * 10 ^ 18) \<le> 0 \<Longrightarrow> mint_tokens_to_wallet cfg nd w amount = (None, [])"
  by (simp add: mint_tokens_to_wallet_def Let_def split: option.splits)

lemma mint_unavailable:
  "w3 cfg = None \<or> admin_account cfg = None \<Longrightarrow> mint_tokens_to_wallet cfg nd w amount = (None, [])"
  by (auto simp add: mint_tokens_to_wallet_def Let_def split: option.splits)

lemma mint_build_amount:
  "BuildTransaction tx \<in> set (snd (mint_tokens_to_wallet cfg nd w amount)) \<Longrightarrow>
     mint_amount tx = py_int (amount * 10 ^ 18) \<and> 0 < mint_amount tx"
  by (auto simp: mint_tokens_to_wallet_def Let_def try_step_def split: option.splits if_splits prod.splits)

lemma mint_send_built:
  "SendRawTransaction raw \<in> set (snd (mint_tokens_to_wallet cfg nd w amount)) \<Longrightarrow>
     \<exists>tx built. BuildTransaction tx \<in> set (snd (mint_tokens_to_wallet cfg nd w amount))
        \<and> build_transaction nd tx = Some built \<and> sign_transaction nd built = Some raw
        \<and> mint_amount tx = py_int (amount * 10 ^ 18)"
  by (auto simp: mint_tokens_to_wallet_def Let_def try_step_def split: option.splits if_splits prod.splits)

lemma mint_truthy:
  "truthy (fst (mint_tokens_to_wallet cfg nd w amount)) \<Longrightarrow>
     0 < py_int (amount * 10 ^ 18) \<and>
     (\<exists>h rc. fst (mint_tokens_to_wallet cfg nd w amount) = Some h
        \<and> SendRawTransaction h \<noteq> SendRawTransaction []
        \<and> wait_for_transaction_receipt nd h 120 = Some rc \<and> status rc = 1)"
  by (auto simp: mint_tokens_to_wallet_def Let_def try_step_def truthy_def split: option.splits if_splits prod.splits)

subsection \<open>Facts about a metrics query\<close>

lemma metrics_sessions:
  assumes "h \<noteq> []"
    and "cur = current_session s (lower h) t1 t2"
    and "acc = total_earned cur + fst (calculate_earnings 100000 (now - start_time cur))"
  shows "sessions_after (get_metrics_with cfg mint (Some h) t1 t2 now s) =
    s(lower h \<mapsto>
      (if now - last_mint_time cur \<ge> 5 \<and> w3 cfg \<noteq> None \<and> admin_account cfg \<noteq> None
          \<and> (\<exists>r. fst (mint (lower h) acc) = Returned r \<and> truthy r)
       then cur\<lparr>total_earned := 0, last_mint_time := now\<rparr>
       else cur\<lparr>total_earned := acc\<rparr>))"
  using assms
  by (auto simp: get_metrics_with_def Let_def case_prod_beta split: raised.splits)

lemma metrics_events:
  assumes "h \<noteq> []"
    and "cur = current_session s (lower h) t1 t2"
    and "acc = total_earned cur + fst (calculate_earnings 100000 (now - start_time cur))"
  shows "events (get_metrics_with cfg mint (Some h) t1 t2 now s) =
      (if now - last_mint_time cur \<ge> 5 \<and> w3 cfg \<noteq> None \<and> admin_account cfg \<noteq> None
       then MintCall (lower h) acc # snd (mint (lower h) acc) @
            [case fst (mint (lower h) acc) of
               Returned r \<Rightarrow> if truthy r then LogMinted (lower h) acc else LogPending (lower h)
             | Raised e \<Rightarrow> LogMintError (lower h)]
       else [])"
  using assms
  by (auto simp: get_metrics_with_def Let_def case_prod_beta split: raised.splits)

lemma metrics_returned:
  assumes "h \<noteq> []"
    and "cur = current_session s (lower h) t1 t2"
    and "new = fst (calculate_earnings 100000 (now - start_time cur))"
  shows "returned (get_metrics_with cfg mint (Some h) t1 t2 now s) =
      Inr \<lparr>totalProfit = total_earned cur + new,
           hourlyRate = (if now - start_time cur > 0 then new / (now - start_time cur) * 3600 else 0),
           dailyProfit = (if now - start_time cur > 0 then new / (now - start_time cur) * 3600 else 0) * 24,
           activePositions = length STRATEGIES,
           pendingRewards = (total_earned cur + new) * (1 / 10),
           total_apy_percent = snd (calculate_earnings 100000 (now - start_time cur)) * 100,
           metrics_ai_boost = AI_BOOST\<rparr>"
  using assms
  by (auto simp: get_metrics_with_def Let_def case_prod_beta split: raised.splits)

lemma metrics_no_header:
  "hdr = None \<or> hdr = Some [] \<Longrightarrow>
   get_metrics_with cfg mint hdr t1 t2 now s =
     \<lparr>returned = Inl (HTTPException 400 ''Wallet address header required''),
      sessions_after = s, events = []\<rparr>"
  by (auto simp: get_metrics_with_def)

lemma mint_reaches_node:
  assumes "0 < py_int (amount * 10 ^ 18)" and "w3 cfg \<noteq> None" and "admin_account cfg \<noteq> None"
    and "to_checksum_address nd (TOKEN_ADDRESS cfg) \<noteq> None"
  shows "GasPriceQuery \<in> set (snd (mint_tokens_to_wallet cfg nd w amount))"
  using assms
  by (auto simp: mint_tokens_to_wallet_def Let_def try_step_def split: option.splits prod.splits)

lemma py_int_pos: "1 \<le> x \<Longrightarrow> 0 < py_int x"
  by (simp add: py_int_def)

lemma accrued_after_cooldown:
  assumes "0 \<le> tot" and "(5::real) \<le> d"
  shows "0 < py_int ((tot + fst (calculate_earnings 100000 d)) * 10 ^ 18)"
proof -
  have "(1::real) / 100 \<le> fst (calculate_earnings 100000 d)"
    using assms(2) by (simp add: calculate_earnings_value)
  then have "1 / 100 \<le> tot + fst (calculate_earnings 100000 d)"
    using assms(1) by linarith
  then have "1 / 100 * 10 ^ 18 \<le> (tot + fst (calculate_earnings 100000 d)) * 10 ^ 18"
    by (rule mult_right_mono) simp
  then have "1 \<le> (tot + fst (calculate_earnings 100000 d)) * 10 ^ 18"
    by simp
  then show ?thesis by (rule py_int_pos)
qed

lemma mint_events_not_empty_iff:
  assumes "h \<noteq> []" and "cur = current_session s (lower h) t1 t2"
  shows "(events (get_metrics cfg nd (Some h) t1 t2 now s) \<noteq> []) =
         (now - last_mint_time cur \<ge> 5 \<and> w3 cfg \<noteq> None \<and> admin_account cfg \<noteq> None)"
  by (simp add: get_metrics_def metrics_events [OF assms refl])

text \<open>The equations that evaluate the model on the concrete inputs.\<close>

lemmas concrete_defs =
  current_session_def one_session_def calculate_earnings_value
  mint_tokens_to_wallet_def live_config_def offline_config_def module_init_def
  reverting_node_def confirming_node_def
  node_with_receipt_def try_step_def py_int_def truthy_def Let_def lower_0xABC

lemma py_int_pos_arg: "0 < py_int x \<Longrightarrow> 0 < x"
  by (auto simp: py_int_def split: if_splits)

lemma get_metrics_mint_result:
  "fst (case mint_tokens_to_wallet cfg nd w a of (r, tr) \<Rightarrow> (Returned r, tr))
     = Returned (fst (mint_tokens_to_wallet cfg nd w a))"
  by (simp add: case_prod_beta)


lemma stop_engine_sessions:
  "sessions_after (stop_engine data s) =
     s(lower (case data ''walletAddress'' of None \<Rightarrow> [] | Some a \<Rightarrow> a) := None)"
  by (auto simp: stop_engine_def Let_def fun_upd_idem_iff domIff)

text \<open>
  A query for an untracked wallet creates the session with the readings it takes: the start
  time is the first, the last mint time the second, and the amount is the accrual from the
  first reading to the third.
\<close>

lemma fresh_query_readings:
  assumes "h \<noteq> []" and "s (lower h) = None" and "now - t2 < 5"
  shows "sessions_after (get_metrics cfg nd (Some h) t1 t2 now s) (lower h) =
     Some \<lparr>start_time = t1, total_earned = fst (calculate_earnings 100000 (now - t1)),
           last_mint_time = t2, strategies = []\<rparr>"
  using assms(2,3)
  by (simp add: get_metrics_def metrics_sessions [OF assms(1) refl refl] current_session_def)

subsection \<open>Facts about repeated queries\<close>

lemma unminted_query_sessions:
  assumes "h \<noteq> []" and "s (lower h) = Some x"
    and "\<not> (\<exists>e \<in> set (events (get_metrics cfg nd (Some h) t1 t2 now s)). is_minted e)"
  shows "sessions_after (get_metrics cfg nd (Some h) t1 t2 now s) =
     s(lower h \<mapsto> x\<lparr>total_earned := total_earned x
                          + fst (calculate_earnings 100000 (now - start_time x))\<rparr>)"
proof -
  have cur: "x = current_session s (lower h) t1 t2"
    using assms(2) by (simp add: current_session_def)
  let ?acc = "total_earned x + fst (calculate_earnings 100000 (now - start_time x))"
  have "\<not> (now - last_mint_time x \<ge> 5 \<and> w3 cfg \<noteq> None \<and> admin_account cfg \<noteq> None
       \<and> truthy (fst (mint_tokens_to_wallet cfg nd (lower h) ?acc)))"
  proof
    assume a: "now - last_mint_time x \<ge> 5 \<and> w3 cfg \<noteq> None \<and> admin_account cfg \<noteq> None
       \<and> truthy (fst (mint_tokens_to_wallet cfg nd (lower h) ?acc))"
    then have "LogMinted (lower h) ?acc \<in> set (events (get_metrics cfg nd (Some h) t1 t2 now s))"
      by (simp add: get_metrics_def metrics_events [OF assms(1) cur refl] get_metrics_mint_result)
    then have "\<exists>e \<in> set (events (get_metrics cfg nd (Some h) t1 t2 now s)). is_minted e"
      by (rule bexI [rotated]) simp
    with assms(3) show False by blast
  qed
  then show ?thesis
    by (auto simp add: get_metrics_def metrics_sessions [OF assms(1) cur refl]
        get_metrics_mint_result)
qed

lemma poll_unminted:
  assumes "h \<noteq> []"
  shows "s (lower h) = Some x \<Longrightarrow>
     \<not> (\<exists>e \<in> set (snd (poll cfg (Some h) qs s)). is_minted e) \<Longrightarrow>
     fst (poll cfg (Some h) qs s) =
       s(lower h \<mapsto> x\<lparr>total_earned := total_earned x
          + (\<Sum>(t1, t2, now, nd) \<leftarrow> qs. fst (calculate_earnings 100000 (now - start_time x)))\<rparr>)"
proof (induction qs arbitrary: s x)
  case Nil
  then show ?case by (simp add: fun_upd_idem)
next
  case (Cons q qs)
  obtain t1 t2 now nd where q: "q = (t1, t2, now, nd)" by (cases q) auto
  let ?r = "get_metrics cfg nd (Some h) t1 t2 now s"
  let ?x' = "x\<lparr>total_earned := total_earned x
                 + fst (calculate_earnings 100000 (now - start_time x))\<rparr>"
  have ev: "snd (poll cfg (Some h) (q # qs) s) = events ?r @ snd (poll cfg (Some h) qs (sessions_after ?r))"
    by (simp add: q Let_def case_prod_beta)
  have fs: "fst (poll cfg (Some h) (q # qs) s) = fst (poll cfg (Some h) qs (sessions_after ?r))"
    by (simp add: q Let_def case_prod_beta)
  have n1: "\<not> (\<exists>e \<in> set (events ?r). is_minted e)"
    using Cons.prems(2) unfolding ev by auto
  have n2: "\<not> (\<exists>e \<in> set (snd (poll cfg (Some h) qs (sessions_after ?r))). is_minted e)"
    using Cons.prems(2) unfolding ev by auto
  have sa: "sessions_after ?r = s(lower h \<mapsto> ?x')"
    by (rule unminted_query_sessions [OF assms Cons.prems(1) n1])
  have "fst (poll cfg (Some h) qs (sessions_after ?r)) =
      (sessions_after ?r)(lower h \<mapsto> ?x'\<lparr>total_earned := total_earned ?x'
          + (\<Sum>(t1, t2, now, nd) \<leftarrow> qs. fst (calculate_earnings 100000 (now - start_time ?x')))\<rparr>)"
    by (rule Cons.IH [OF _ n2]) (simp add: sa)
  then show ?case
    unfolding fs by (simp add: sa q add.assoc)
qed

lemma accrual_linear:
  "fst (calculate_earnings 100000 d) = 100000 * (effectiveRate / (365 * 86400)) * d"
  by (simp add: calculate_earnings_value effectiveRate_value)

lemma sum_scaled:
  "(\<Sum>(t1 :: real, t2 :: real, now, nd :: node) \<leftarrow> qs. K * (now - (t0::real))) =
   K * (\<Sum>(t1, t2, now, nd) \<leftarrow> qs. now - t0)"
  by (induction qs) (auto simp: distrib_left)

lemma sum_accruals:
  "(\<Sum>(t1, t2, now, nd) \<leftarrow> qs. fst (calculate_earnings 100000 (now - (t0::real)))) =
   100000 * (effectiveRate / (365 * 86400)) * (\<Sum>(t1 :: real, t2 :: real, now, nd :: node) \<leftarrow> qs. now - t0)"
  unfolding accrual_linear by (rule sum_scaled)


subsection \<open>Facts about runs\<close>

lemma accrual_nonneg: "0 \<le> d \<Longrightarrow> 0 \<le> fst (calculate_earnings 100000 d)"
  by (simp add: calculate_earnings_value)

lemma chronological_tail:
  "chronological c (r # rs) \<Longrightarrow> chronological (clock_after c r) rs \<and> c \<le> clock_after c r"
  by (cases r) auto

lemma within_clock_mono: "within_clock c s \<Longrightarrow> c \<le> c' \<Longrightarrow> within_clock c' s"
  by (fastforce simp: within_clock_def)

lemma within_clock_upd:
  "within_clock c s \<Longrightarrow> 0 \<le> total_earned x \<Longrightarrow> start_time x \<le> c \<Longrightarrow> within_clock c (s(w \<mapsto> x))"
  by (simp add: within_clock_def)

lemma within_clock_del: "within_clock c s \<Longrightarrow> within_clock c (s(w := None))"
  by (simp add: within_clock_def)

lemma current_session_within:
  assumes "within_clock c s" and "c \<le> t1"
  shows "0 \<le> total_earned (current_session s w t1 t2) \<and> start_time (current_session s w t1 t2) \<le> t1"
proof (cases "s w")
  case None
  then show ?thesis by (simp add: current_session_def)
next
  case (Some x)
  with assms(1) have "0 \<le> total_earned x \<and> start_time x \<le> c"
    by (simp add: within_clock_def)
  with Some assms(2) show ?thesis by (simp add: current_session_def)
qed

lemma metrics_within_clock:
  assumes "within_clock c s" and "c \<le> t1" and "t1 \<le> t2" and "t2 \<le> now"
  shows "within_clock now (sessions_after (get_metrics cfg nd hdr t1 t2 now s))"
proof (cases "hdr = None \<or> hdr = Some []")
  case True
  have "c \<le> now" using assms by linarith
  with assms(1) True show ?thesis
    by (simp add: get_metrics_def metrics_no_header within_clock_mono)
next
  case False
  then obtain h where h: "hdr = Some h" "h \<noteq> []" by auto
  let ?cur = "current_session s (lower h) t1 t2"
  have cur: "0 \<le> total_earned ?cur \<and> start_time ?cur \<le> t1"
    by (rule current_session_within [OF assms(1,2)])
  then have d: "0 \<le> now - start_time ?cur" using assms by linarith
  have e: "0 \<le> fst (calculate_earnings 100000 (now - start_time ?cur))"
    by (rule accrual_nonneg [OF d])
  have wc: "within_clock now s"
    using assms by (intro within_clock_mono [OF assms(1)]) linarith
  show ?thesis
    unfolding h(1) get_metrics_def metrics_sessions [OF h(2) refl refl]
    using cur d e by (intro within_clock_upd [OF wc]) auto
qed

lemma step_within_clock:
  assumes "within_clock c s" and "chronological c (r # rs)"
  shows "within_clock (clock_after c r) (fst (step cfg r s))"
proof (cases r)
  case (Start req t_start t_mint)
  with assms(2) have t: "c \<le> t_start" "t_start \<le> t_mint" by auto
  then have "within_clock t_mint s"
    by (intro within_clock_mono [OF assms(1)]) linarith
  then show ?thesis
    using t by (simp add: Start start_engine_def Let_def within_clock_upd)
next
  case (Metrics hdr t1 t2 now nd)
  with assms(2) have "c \<le> t1" "t1 \<le> t2" "t2 \<le> now" by auto
  then show ?thesis
    by (simp add: Metrics Let_def metrics_within_clock [OF assms(1)])
next
  case (Stop data)
  then show ?thesis
    using assms(1) by (simp add: Let_def stop_engine_sessions within_clock_del)
qed

lemma exec_within_clock:
  "within_clock c s \<Longrightarrow> chronological c (rs @ rs') \<Longrightarrow>
     within_clock (foldl clock_after c rs) (exec cfg rs s)
     \<and> chronological (foldl clock_after c rs) rs'"
proof (induction rs arbitrary: c s)
  case Nil
  then show ?case by simp
next
  case (Cons r rs)
  from Cons.prems(2) have ch: "chronological c (r # (rs @ rs'))" by simp
  have "within_clock (clock_after c r) (fst (step cfg r s))"
    by (rule step_within_clock [OF Cons.prems(1) ch])
  moreover have "chronological (clock_after c r) (rs @ rs')"
    using chronological_tail [OF ch] by simp
  ultimately show ?case
    using Cons.IH by simp
qed

lemma step_effect:
  assumes "within_clock c before" and "chronological c [r]"
    and "after = fst (step cfg r before)"
  shows "(\<forall>w y. after w = Some y \<longrightarrow>
            (total_earned y = 0 \<or> (\<exists>inc. 0 \<le> inc \<and> total_earned y = pending before w + inc)))
     \<and> (\<forall>w x y. before w = Some x \<and> after w = Some y \<and> total_earned y < total_earned x \<longrightarrow>
            total_earned y = 0
            \<and> (starts r w \<or> (\<exists>a. LogMinted w a \<in> set (snd (step cfg r before)))))"
proof (cases r)
  case (Start req t_start t_mint)
  have a: "after = before(lower (walletAddress req) \<mapsto>
      \<lparr>start_time = t_start, total_earned = 0, last_mint_time = t_mint,
       strategies = req_strategies req\<rparr>)"
    unfolding assms(3) by (simp add: Start start_engine_def Let_def)
  show ?thesis
    unfolding a by (auto simp: Start pending_def split: if_splits)
next
  case (Stop data)
  have a: "after = before(lower (case data ''walletAddress'' of None \<Rightarrow> [] | Some a \<Rightarrow> a) := None)"
    unfolding assms(3) by (simp add: Stop Let_def stop_engine_sessions)
  show ?thesis
    unfolding a by (auto simp: pending_def split: if_splits)
next
  case (Metrics hdr t1 t2 now nd)
  with assms(2) have t: "c \<le> t1" "t1 \<le> t2" "t2 \<le> now" by auto
  show ?thesis
  proof (cases "hdr = None \<or> hdr = Some []")
    case True
    then have a: "after = before"
      unfolding assms(3) by (simp add: Metrics Let_def get_metrics_def metrics_no_header)
    show ?thesis
      unfolding a by (auto simp: pending_def)
  next
    case False
    then obtain h where h: "hdr = Some h" "h \<noteq> []" by auto
    let ?cur = "current_session before (lower h) t1 t2"
    let ?inc = "fst (calculate_earnings 100000 (now - start_time ?cur))"
    let ?acc = "total_earned ?cur + ?inc"
    let ?ok = "now - last_mint_time ?cur \<ge> 5 \<and> w3 cfg \<noteq> None \<and> admin_account cfg \<noteq> None
          \<and> truthy (fst (mint_tokens_to_wallet cfg nd (lower h) ?acc))"
    have cur: "0 \<le> total_earned ?cur \<and> start_time ?cur \<le> t1"
      by (rule current_session_within [OF assms(1) t(1)])
    then have "0 \<le> now - start_time ?cur" using t by linarith
    then have inc: "0 \<le> ?inc" by (rule accrual_nonneg)
    have pend: "pending before (lower h) = total_earned ?cur"
      by (simp add: pending_def current_session_def split: option.splits)
    have a: "after = before(lower h \<mapsto>
        (if ?ok then ?cur\<lparr>total_earned := 0, last_mint_time := now\<rparr>
         else ?cur\<lparr>total_earned := ?acc\<rparr>))"
      unfolding assms(3)
      by (simp add: Metrics h(1) Let_def get_metrics_def metrics_sessions [OF h(2) refl refl]
          get_metrics_mint_result)
    have ev: "?ok \<Longrightarrow> LogMinted (lower h) ?acc \<in> set (snd (step cfg r before))"
      by (simp add: Metrics h(1) Let_def get_metrics_def metrics_events [OF h(2) refl refl]
          get_metrics_mint_result)
    have p1: "\<forall>w y. after w = Some y \<longrightarrow>
            (total_earned y = 0 \<or> (\<exists>inc. 0 \<le> inc \<and> total_earned y = pending before w + inc))"
    proof (intro allI impI)
      fix w y assume y: "after w = Some y"
      show "total_earned y = 0 \<or> (\<exists>inc. 0 \<le> inc \<and> total_earned y = pending before w + inc)"
      proof (cases "w = lower h")
        case True
        show ?thesis
        proof (cases ?ok)
          case True
          with y \<open>w = lower h\<close> show ?thesis unfolding a by auto
        next
          case False
          with y \<open>w = lower h\<close> have "total_earned y = pending before w + ?inc"
            unfolding a by (auto simp: pend)
          with inc show ?thesis by blast
        qed
      next
        case False
        with y have "before w = Some y" unfolding a by simp
        then have "total_earned y = pending before w + 0" by (simp add: pending_def)
        then show ?thesis by (intro disjI2 exI [of _ 0]) simp
      qed
    qed
    have p2: "\<forall>w x y. before w = Some x \<and> after w = Some y \<and> total_earned y < total_earned x \<longrightarrow>
            total_earned y = 0
            \<and> (starts r w \<or> (\<exists>a. LogMinted w a \<in> set (snd (step cfg r before))))"
    proof (intro allI impI)
      fix w x y
      assume b: "before w = Some x \<and> after w = Some y \<and> total_earned y < total_earned x"
      have w: "w = lower h"
      proof (rule ccontr)
        assume "w \<noteq> lower h"
        with b show False unfolding a by auto
      qed
      have x: "?cur = x" using b w by (simp add: current_session_def)
      have ok: ?ok
      proof (rule ccontr)
        assume "\<not> ?ok"
        with b w have "total_earned y = total_earned x + ?inc"
          unfolding a by (auto simp: x)
        with inc b show False by linarith
      qed
      with b w have "total_earned y = 0" unfolding a by auto
      moreover from ev [OF ok] w have "\<exists>a. LogMinted w a \<in> set (snd (step cfg r before))"
        by blast
      ultimately show "total_earned y = 0
            \<and> (starts r w \<or> (\<exists>a. LogMinted w a \<in> set (snd (step cfg r before))))"
        by simp
    qed
    from p1 p2 show ?thesis by (rule conjI)
  qed
qed

subsection \<open>The claims\<close>

text \<open>
  Claim C2. For every elapsed duration \<open>t\<close> (non-negative or not) and every principal \<open>P\<close>,
  the accrual computation returns the increment \<open>P * effectiveRate / (365 * 86400) * t\<close>,
  together with the effective rate itself, which is the weighted sum over the strategy
  table times the boost 2.5 (the number 4.8195).
\<close>

theorem calculate_earnings_formula:
  "fst (calculate_earnings P t) = P * effectiveRate / (365 * 86400) * t
   \<and> snd (calculate_earnings P t) = effectiveRate
   \<and> effectiveRate = (\<Sum>(name, s) \<leftarrow> STRATEGIES. apy s * weight s) * (25 / 10)"
  by (simp add: calculate_earnings_value effectiveRate_value)
    (simp add: STRATEGIES_def)

text \<open>
  Claim C1, as the code has it. When a metrics query attempts a settlement and the attempt
  does not confirm (the mint call returns nothing, or raises), the session keeps the
  accumulated amount it had when the attempt was made, and \<open>last_mint_time\<close> keeps its old
  value: it is at least five seconds before \<open>now\<close> and is not moved to \<open>now\<close>, so the next
  query attempts the settlement again.
\<close>

theorem failed_attempt_keeps_pending_and_mint_time:
  assumes "h \<noteq> []"
    and "cur = current_session s (lower h) t1 t2"
    and "acc = total_earned cur + fst (calculate_earnings 100000 (now - start_time cur))"
    and "now - last_mint_time cur \<ge> 5" and "w3 cfg \<noteq> None" and "admin_account cfg \<noteq> None"
    and "\<forall>r. fst (mint (lower h) acc) = Returned r \<longrightarrow> \<not> truthy r"
  shows "sessions_after (get_metrics_with cfg mint (Some h) t1 t2 now s) (lower h) =
           Some (cur\<lparr>total_earned := acc\<rparr>)
         \<and> last_mint_time (cur\<lparr>total_earned := acc\<rparr>) = last_mint_time cur
         \<and> last_mint_time cur \<noteq> now
         \<and> MintCall (lower h) acc \<in> set (events (get_metrics_with cfg mint (Some h) t1 t2 now s))"
proof -
  have "\<not> (\<exists>r. fst (mint (lower h) acc) = Returned r \<and> truthy r)"
    using assms(7) by blast
  then have "sessions_after (get_metrics_with cfg mint (Some h) t1 t2 now s) (lower h) =
      Some (cur\<lparr>total_earned := acc\<rparr>)"
    by (auto simp add: metrics_sessions [OF assms(1-3)])
  moreover have "last_mint_time cur \<noteq> now"
    using assms(4) by auto
  moreover have "MintCall (lower h) acc \<in> set (events (get_metrics_with cfg mint (Some h) t1 t2 now s))"
    using assms(4-6) by (simp add: metrics_events [OF assms(1-3)])
  ultimately show ?thesis by simp
qed


text \<open>
  The claim as stated asks for \<open>last_mint_time = now\<close> after a failed attempt. With a
  reverted transaction at \<open>now = 10\<close> the attempt is logged as pending and
  \<open>last_mint_time\<close> is still 0.
\<close>

theorem failed_attempt_counterexample:
  "last (events (get_metrics live_config reverting_node (Some ''0xABC'') 10 10 10 one_session))
     = LogPending ''0xabc''
   \<and> map_option last_mint_time
       (sessions_after (get_metrics live_config reverting_node (Some ''0xABC'') 10 10 10 one_session)
          ''0xabc'') = Some 0
   \<and> map_option last_mint_time
       (sessions_after (get_metrics live_config reverting_node (Some ''0xABC'') 10 10 10 one_session)
          ''0xabc'') \<noteq> Some 10"
  by (simp add: get_metrics_def metrics_sessions [OF _ refl refl] metrics_events [OF _ refl refl]
      lower_0xABC current_session_def one_session_def calculate_earnings_value
      mint_tokens_to_wallet_def live_config_def module_init_def reverting_node_def
      node_with_receipt_def try_step_def py_int_def truthy_def Let_def)

text \<open>
  Claim C5, as the code has it. A metrics query produces an event (hence calls the mint
  function, hence reaches the chain) only if at least five seconds have passed since
  \<open>last_mint_time\<close>, the time of the last confirmed mint or of the creation of the session,
  and both the client and the signing account were configured at start-up; under these
  conditions it does call the mint function. At 4.9 seconds after \<open>last_mint_time\<close> nothing
  is called; at 5.1 seconds with the chain configured the mint function is called, and in a
  session whose amount is not negative and whose start is not after its last mint the gas
  price is asked of the node (given that the token address is accepted). A query without a
  usable header calls nothing. The chain counts as configured exactly when both keys are
  set and the node answered at start-up.
\<close>

theorem mint_only_after_cooldown_when_available:
  assumes "h \<noteq> []"
    and "cur = current_session s (lower h) t1 t2"
    and "acc = total_earned cur + fst (calculate_earnings 100000 (now - start_time cur))"
    and "evs = events (get_metrics cfg nd (Some h) t1 t2 now s)"
  shows "(evs \<noteq> [] \<longrightarrow> now - last_mint_time cur \<ge> 5 \<and> w3 cfg \<noteq> None \<and> admin_account cfg \<noteq> None)
    \<and> (now - last_mint_time cur \<ge> 5 \<and> w3 cfg \<noteq> None \<and> admin_account cfg \<noteq> None
          \<longrightarrow> hd evs = MintCall (lower h) acc \<and> evs \<noteq> [])
    \<and> (now - last_mint_time cur = 49 / 10 \<longrightarrow> evs = [])
    \<and> (now - last_mint_time cur = 51 / 10 \<and> w3 cfg \<noteq> None \<and> admin_account cfg \<noteq> None
          \<longrightarrow> hd evs = MintCall (lower h) acc \<and> evs \<noteq> [])
    \<and> (now - last_mint_time cur \<ge> 5 \<and> w3 cfg \<noteq> None \<and> admin_account cfg \<noteq> None
         \<and> 0 \<le> total_earned cur \<and> start_time cur \<le> last_mint_time cur
         \<and> to_checksum_address nd (TOKEN_ADDRESS cfg) \<noteq> None
          \<longrightarrow> GasPriceQuery \<in> set evs)
    \<and> events (get_metrics cfg nd None t1 t2 now s) = []
    \<and> events (get_metrics cfg nd (Some []) t1 t2 now s) = []
    \<and> ((w3 (module_init alchemy_key private_key token is_connected from_key) \<noteq> None
         \<and> admin_account (module_init alchemy_key private_key token is_connected from_key) \<noteq> None)
        = (alchemy_key \<noteq> [] \<and> private_key \<noteq> [] \<and> is_connected))"
proof -
  note ev = metrics_events [OF assms(1-3)]
  have iff: "(evs \<noteq> []) = (now - last_mint_time cur \<ge> 5 \<and> w3 cfg \<noteq> None \<and> admin_account cfg \<noteq> None)"
    unfolding assms(4) by (rule mint_events_not_empty_iff [OF assms(1,2)])
  have c1: "evs \<noteq> [] \<longrightarrow> now - last_mint_time cur \<ge> 5 \<and> w3 cfg \<noteq> None \<and> admin_account cfg \<noteq> None"
    using iff by simp
  have c2: "now - last_mint_time cur \<ge> 5 \<and> w3 cfg \<noteq> None \<and> admin_account cfg \<noteq> None
          \<longrightarrow> hd evs = MintCall (lower h) acc \<and> evs \<noteq> []"
    unfolding assms(4) by (simp add: get_metrics_def ev)
  have c3: "now - last_mint_time cur = 49 / 10 \<longrightarrow> evs = []"
    using iff by auto
  have c4: "now - last_mint_time cur = 51 / 10 \<and> w3 cfg \<noteq> None \<and> admin_account cfg \<noteq> None
          \<longrightarrow> hd evs = MintCall (lower h) acc \<and> evs \<noteq> []"
    using c2 by simp
  have c5: "now - last_mint_time cur \<ge> 5 \<and> w3 cfg \<noteq> None \<and> admin_account cfg \<noteq> None
         \<and> 0 \<le> total_earned cur \<and> start_time cur \<le> last_mint_time cur
         \<and> to_checksum_address nd (TOKEN_ADDRESS cfg) \<noteq> None
          \<longrightarrow> GasPriceQuery \<in> set evs"
  proof
    assume a: "now - last_mint_time cur \<ge> 5 \<and> w3 cfg \<noteq> None \<and> admin_account cfg \<noteq> None
         \<and> 0 \<le> total_earned cur \<and> start_time cur \<le> last_mint_time cur
         \<and> to_checksum_address nd (TOKEN_ADDRESS cfg) \<noteq> None"
    then have "5 \<le> now - start_time cur" by linarith
    with a have "0 < py_int (acc * 10 ^ 18)"
      unfolding assms(3) by (intro accrued_after_cooldown) simp_all
    with a have "GasPriceQuery \<in> set (snd (mint_tokens_to_wallet cfg nd (lower h) acc))"
      by (intro mint_reaches_node) simp_all
    with a show "GasPriceQuery \<in> set evs"
      unfolding assms(4) by (simp add: get_metrics_def ev case_prod_beta)
  qed
  have c6: "events (get_metrics cfg nd None t1 t2 now s) = []"
    by (simp add: get_metrics_def metrics_no_header)
  have c7: "events (get_metrics cfg nd (Some []) t1 t2 now s) = []"
    by (simp add: get_metrics_def metrics_no_header)
  have c8: "(w3 (module_init alchemy_key private_key token is_connected from_key) \<noteq> None
         \<and> admin_account (module_init alchemy_key private_key token is_connected from_key) \<noteq> None)
        = (alchemy_key \<noteq> [] \<and> private_key \<noteq> [] \<and> is_connected)"
    by (simp add: module_init_def)
  from c1 c2 c3 c4 c5 c6 c7 c8 show ?thesis by blast
qed

text \<open>
  The claim as stated measures the five seconds from the last attempt and asks for a live
  connection. After the reverted attempt at 10, the query at 14.9, which is 4.9 seconds
  after that attempt, submits a transaction again; and with a node that answers nothing at
  the time of the query the mint function is still called and the gas price still asked.
\<close>

theorem mint_cooldown_counterexample:
  "WaitForReceipt ''0xhash'' 120
     \<in> set (events (get_metrics live_config reverting_node (Some ''0xABC'') 10 10 10 one_session))
   \<and> SendRawTransaction ''raw''
     \<in> set (events (get_metrics live_config reverting_node (Some ''0xABC'')
          (149 / 10) (149 / 10) (149 / 10)
          (sessions_after (get_metrics live_config reverting_node (Some ''0xABC'') 10 10 10
             one_session))))
   \<and> (149 / 10 - 10 :: real) = 49 / 10
   \<and> events (get_metrics live_config unreachable_node (Some ''0xABC'') 10 10 10 one_session)
       = [MintCall ''0xabc'' (357 / 2336), GasPriceQuery, LogPending ''0xabc'']"
proof -
  have a1: "''0xABC'' \<noteq> []" by simp
  have s1: "sessions_after (get_metrics live_config reverting_node (Some ''0xABC'') 10 10 10
             one_session) =
      [''0xabc'' \<mapsto> \<lparr>start_time = 0, total_earned = 357 / 2336, last_mint_time = 0,
                      strategies = []\<rparr>]"
    by (simp add: get_metrics_def metrics_sessions [OF a1 refl refl] get_metrics_mint_result
        concrete_defs)
  have p1: "WaitForReceipt ''0xhash'' 120
     \<in> set (events (get_metrics live_config reverting_node (Some ''0xABC'') 10 10 10 one_session))"
    by (simp add: get_metrics_def metrics_events [OF a1 refl refl] concrete_defs)
  have p2: "SendRawTransaction ''raw''
     \<in> set (events (get_metrics live_config reverting_node (Some ''0xABC'')
          (149 / 10) (149 / 10) (149 / 10)
          [''0xabc'' \<mapsto> \<lparr>start_time = 0, total_earned = 357 / 2336, last_mint_time = 0,
                      strategies = []\<rparr>]))"
    by (simp add: get_metrics_def metrics_events [OF a1 refl refl] concrete_defs)
  have p3: "events (get_metrics live_config unreachable_node (Some ''0xABC'') 10 10 10 one_session)
       = [MintCall ''0xabc'' (357 / 2336), GasPriceQuery, LogPending ''0xabc'']"
    by (simp add: get_metrics_def metrics_events [OF a1 refl refl] concrete_defs
        unreachable_node_def)
  from p1 p2 p3 show ?thesis unfolding s1 by simp
qed

text \<open>
  Claim C7. Starting a wallet that is already tracked replaces its session, whatever it
  held: the pending amount is zero, the start time and the last mint time are the clock
  readings of this start, and the strategies are those of this request.
\<close>

theorem start_engine_overwrites:
  "sessions_after (start_engine req t_start t_mint (user_sessions(lower (walletAddress req) \<mapsto> old)))
     (lower (walletAddress req)) =
     Some \<lparr>start_time = t_start, total_earned = 0, last_mint_time = t_mint,
           strategies = req_strategies req\<rparr>"
  by (simp add: start_engine_def Let_def)

text \<open>
  Claim C1 at a reverted transaction: the query at 10 of the session started at 0 attempts
  the mint, the receipt has status 0, and the session keeps the accrued amount and the last
  mint time 0.
\<close>

theorem failed_attempt_witness:
  "sessions_after (get_metrics live_config reverting_node (Some ''0xABC'') 10 10 10 one_session)
     ''0xabc'' =
   Some \<lparr>start_time = 0, total_earned = 357 / 2336, last_mint_time = 0, strategies = []\<rparr>"
proof -
  let ?mint = "\<lambda>wallet_address amount.
         case mint_tokens_to_wallet live_config reverting_node wallet_address amount of
           (r, tr) \<Rightarrow> (Returned r, tr)"
  let ?cur = "current_session one_session (lower ''0xABC'') 10 10"
  let ?acc = "total_earned ?cur + fst (calculate_earnings 100000 (10 - start_time ?cur))"
  have a1: "''0xABC'' \<noteq> []" by simp
  have a4: "10 - last_mint_time ?cur \<ge> 5" by (simp add: concrete_defs)
  have a5: "w3 live_config \<noteq> None" by (simp add: concrete_defs)
  have a6: "admin_account live_config \<noteq> None" by (simp add: concrete_defs)
  have a7: "\<forall>r. fst (?mint (lower ''0xABC'') ?acc) = Returned r \<longrightarrow> \<not> truthy r"
    by (simp add: concrete_defs)
  from failed_attempt_keeps_pending_and_mint_time [where h = "''0xABC''" and s = one_session
      and mint = ?mint and cfg = live_config and now = 10 and ?t1.0 = 10 and ?t2.0 = 10,
      OF a1 refl refl a4 a5 a6 a7]
  show ?thesis
    by (simp add: get_metrics_def current_session_def one_session_def lower_0xABC
        calculate_earnings_value)
qed


text \<open>
  Claim C5 on the session started at 0: nothing happens at 4.9; at 5.1 the mint function is
  called and the node is asked for the gas price; without a configured chain nothing happens.
\<close>

theorem mint_only_after_cooldown_witness:
  "events (get_metrics live_config reverting_node (Some ''0xABC'') 0 0 (49 / 10) one_session) = []
   \<and> hd (events (get_metrics live_config reverting_node (Some ''0xABC'') 0 0 (51 / 10) one_session))
       = MintCall ''0xabc'' (18207 / 233600)
   \<and> GasPriceQuery \<in> set (events (get_metrics live_config reverting_node (Some ''0xABC'') 0 0 (51 / 10) one_session))
   \<and> events (get_metrics offline_config reverting_node (Some ''0xABC'') 0 0 (51 / 10) one_session) = []"
proof -
  have a1: "''0xABC'' \<noteq> []" by simp
  note w1 = mint_only_after_cooldown_when_available [where h = "''0xABC''" and s = one_session
      and ?t1.0 = 0 and ?t2.0 = 0 and now = "49 / 10" and cfg = live_config and nd = reverting_node,
      OF a1 refl refl refl]
  note w2 = mint_only_after_cooldown_when_available [where h = "''0xABC''" and s = one_session
      and ?t1.0 = 0 and ?t2.0 = 0 and now = "51 / 10" and cfg = live_config and nd = reverting_node,
      OF a1 refl refl refl]
  note w3 = mint_only_after_cooldown_when_available [where h = "''0xABC''" and s = one_session
      and ?t1.0 = 0 and ?t2.0 = 0 and now = "51 / 10" and cfg = offline_config and nd = reverting_node,
      OF a1 refl refl refl]
  have p1: "events (get_metrics live_config reverting_node (Some ''0xABC'') 0 0 (49 / 10) one_session) = []"
    using w1 by (simp add: current_session_def one_session_def lower_0xABC)
  have avail: "w3 live_config \<noteq> None \<and> admin_account live_config \<noteq> None"
    by (simp add: concrete_defs)
  have p2: "hd (events (get_metrics live_config reverting_node (Some ''0xABC'') 0 0 (51 / 10) one_session))
       = MintCall ''0xabc'' (18207 / 233600)"
    using w2 avail
    by (simp add: current_session_def one_session_def lower_0xABC calculate_earnings_value)
  have p3: "GasPriceQuery \<in> set (events (get_metrics live_config reverting_node (Some ''0xABC'') 0 0 (51 / 10) one_session))"
    using w2 avail
    by (simp add: current_session_def one_session_def lower_0xABC live_config_def module_init_def
        reverting_node_def node_with_receipt_def)
  have p4: "events (get_metrics offline_config reverting_node (Some ''0xABC'') 0 0 (51 / 10) one_session) = []"
    using w3 by (auto simp add: offline_config_def module_init_def)
  from p1 p2 p3 p4 show ?thesis by simp
qed

text \<open>
  Claim C6. The mint function scales the amount to the integer part of \<open>amount * 10^18\<close>.
  When that integer is not positive, it returns nothing and no call reaches the node or the
  signer: nothing is built, signed or submitted. Every transaction it builds carries the
  scaled amount, which is positive, and every raw transaction it submits is the signed form
  of such a built transaction.
\<close>

theorem mint_scales_amount_and_skips_zero:
  "(py_int (amount * 10 ^ 18) \<le> 0 \<longrightarrow> mint_tokens_to_wallet cfg nd w amount = (None, []))
   \<and> (\<forall>tx. BuildTransaction tx \<in> set (snd (mint_tokens_to_wallet cfg nd w amount)) \<longrightarrow>
          mint_amount tx = py_int (amount * 10 ^ 18) \<and> 0 < mint_amount tx)
   \<and> (\<forall>raw. SendRawTransaction raw \<in> set (snd (mint_tokens_to_wallet cfg nd w amount)) \<longrightarrow>
          (\<exists>tx built. BuildTransaction tx \<in> set (snd (mint_tokens_to_wallet cfg nd w amount))
             \<and> build_transaction nd tx = Some built \<and> sign_transaction nd built = Some raw
             \<and> mint_amount tx = py_int (amount * 10 ^ 18)))"
  using mint_skips [of amount cfg nd w] mint_build_amount [of _ cfg nd w amount]
    mint_send_built [of _ cfg nd w amount]
  by blast


text \<open>
  Claim C6 at amounts below one smallest unit and below zero (nothing happens), and at 1.5
  tokens (the transaction carries 1500000000000000000 units and is submitted).
\<close>

theorem mint_scales_amount_witness:
  "mint_tokens_to_wallet live_config confirming_node ''0xabc'' (1 / 10 ^ 19) = (None, [])
   \<and> mint_tokens_to_wallet live_config confirming_node ''0xabc'' (-1) = (None, [])
   \<and> BuildTransaction
        \<lparr>contract = ''0x8502496d6739dd6e18ced318c4b5fc12a5fb2c2c'', mint_to = ''0xabc'',
         mint_amount = 1500000000000000000, tx_from = ''0xAdmin'', tx_nonce = 7,
         tx_gas = 200000, tx_gasPrice = 12, tx_chainId = 1\<rparr>
       \<in> set (snd (mint_tokens_to_wallet live_config confirming_node ''0xabc'' (3 / 2)))
   \<and> SendRawTransaction ''raw''
       \<in> set (snd (mint_tokens_to_wallet live_config confirming_node ''0xabc'' (3 / 2)))
   \<and> py_int (3 / 2 * 10 ^ 18) = 1500000000000000000"
  using mint_scales_amount_and_skips_zero [of "1 / 10 ^ 19" live_config confirming_node "''0xabc''"]
    mint_scales_amount_and_skips_zero [of "-1" live_config confirming_node "''0xabc''"]
    mint_scales_amount_and_skips_zero [of "3 / 2" live_config confirming_node "''0xabc''"]
  by (simp add: concrete_defs)


text \<open>
  Claim C9, as the code has it. The metrics query fails for its caller if and only if the
  wallet header is missing or empty, and the failure is the error 400; in every other case,
  whatever the mint call does (return a hash, return nothing, raise), it returns a response.
\<close>

theorem metrics_error_iff_header_unusable:
  "((\<exists>e. returned (get_metrics_with cfg mint hdr t1 t2 now s) = Inl e)
      = (hdr = None \<or> hdr = Some []))
   \<and> (hdr = None \<or> hdr = Some [] \<longrightarrow>
        returned (get_metrics_with cfg mint hdr t1 t2 now s)
          = Inl (HTTPException 400 ''Wallet address header required''))
   \<and> (hdr \<noteq> None \<and> hdr \<noteq> Some [] \<longrightarrow>
        (\<exists>m. returned (get_metrics_with cfg mint hdr t1 t2 now s) = Inr m))"
proof (cases "hdr = None \<or> hdr = Some []")
  case True
  then show ?thesis by (auto simp add: metrics_no_header)
next
  case False
  then obtain h where h: "hdr = Some h" "h \<noteq> []" by auto
  show ?thesis
    unfolding h(1) using h(2) by (simp add: metrics_returned [OF h(2) refl refl])
qed


text \<open>
  The claim as stated allows the error only for a missing header. A header that is present
  and empty gets the error 400 too.
\<close>

theorem metrics_error_counterexample:
  "returned (get_metrics live_config confirming_node (Some []) 10 10 10 one_session)
     = Inl (HTTPException 400 ''Wallet address header required'')
   \<and> Some [] \<noteq> (None :: string option)"
  by (simp add: get_metrics_def metrics_no_header)


text \<open>
  Claim C9 at a missing header, at a mint call that raises, and at a reverted transaction.
\<close>

theorem metrics_error_witness:
  "returned (get_metrics_with live_config (\<lambda>w a. (Raised ''boom'', [])) None 10 10 10 one_session)
     = Inl (HTTPException 400 ''Wallet address header required'')
   \<and> (\<exists>m. returned (get_metrics_with live_config (\<lambda>w a. (Raised ''boom'', []))
              (Some ''0xABC'') 10 10 10 one_session) = Inr m)
   \<and> (\<exists>m. returned (get_metrics live_config reverting_node (Some ''0xABC'') 10 10 10 one_session)
              = Inr m)"
  using metrics_error_iff_header_unusable [of live_config "\<lambda>w a. (Raised ''boom'', [])" None 10 10 10 one_session]
    metrics_error_iff_header_unusable [of live_config "\<lambda>w a. (Raised ''boom'', [])" "Some ''0xABC''" 10 10 10 one_session]
    metrics_error_iff_header_unusable [of live_config "\<lambda>w a.
         case mint_tokens_to_wallet live_config reverting_node w a of
           (r, tr) \<Rightarrow> (Returned r, tr)" "Some ''0xABC''" 10 10 10 one_session]
  by (simp add: get_metrics_def)

text \<open>
  Claim C10. When the settlement attempt of a metrics query confirms (the attempt is made
  and the mint function returns a transaction hash), the response reports as
  \<open>totalProfit\<close> the amount accumulated before the reset, which is the amount just minted
  and is strictly positive, and as \<open>pendingRewards\<close> a tenth of it, while the stored session
  has \<open>total_earned = 0\<close> and \<open>last_mint_time = now\<close>.
\<close>

theorem confirmed_query_reports_settled_amount:
  assumes "h \<noteq> []"
    and "cur = current_session s (lower h) t1 t2"
    and "acc = total_earned cur + fst (calculate_earnings 100000 (now - start_time cur))"
    and "now - last_mint_time cur \<ge> 5" and "w3 cfg \<noteq> None" and "admin_account cfg \<noteq> None"
    and "truthy (fst (mint_tokens_to_wallet cfg nd (lower h) acc))"
    and "R = get_metrics cfg nd (Some h) t1 t2 now s"
  shows "\<exists>m sess. returned R = Inr m \<and> totalProfit m = acc \<and> pendingRewards m = acc * (1 / 10)
           \<and> 0 < acc \<and> sessions_after R (lower h) = Some sess \<and> total_earned sess = 0
           \<and> last_mint_time sess = now \<and> totalProfit m \<noteq> total_earned sess
           \<and> LogMinted (lower h) acc \<in> set (events R)"
proof -
  have "0 < py_int (acc * 10 ^ 18)"
    using mint_truthy [OF assms(7)] by simp
  then have "0 < acc * 10 ^ 18" by (rule py_int_pos_arg)
  then have pos: "0 < acc" by (simp add: zero_less_mult_iff)
  have ret: "returned R = Inr \<lparr>totalProfit = acc,
           hourlyRate = (if now - start_time cur > 0
              then fst (calculate_earnings 100000 (now - start_time cur)) / (now - start_time cur) * 3600 else 0),
           dailyProfit = (if now - start_time cur > 0
              then fst (calculate_earnings 100000 (now - start_time cur)) / (now - start_time cur) * 3600 else 0) * 24,
           activePositions = length STRATEGIES,
           pendingRewards = acc * (1 / 10),
           total_apy_percent = snd (calculate_earnings 100000 (now - start_time cur)) * 100,
           metrics_ai_boost = AI_BOOST\<rparr>"
    unfolding assms(8) get_metrics_def assms(3)
    by (rule metrics_returned [OF assms(1,2) refl])
  have ses: "sessions_after R (lower h) = Some (cur\<lparr>total_earned := 0, last_mint_time := now\<rparr>)"
    unfolding assms(8) get_metrics_def
    using assms(4-7)
    by (simp add: metrics_sessions [OF assms(1-3)] get_metrics_mint_result)
  have ev: "LogMinted (lower h) acc \<in> set (events R)"
    unfolding assms(8) get_metrics_def
    using assms(4-7)
    by (simp add: metrics_events [OF assms(1-3)] get_metrics_mint_result)
  from pos ret ses ev show ?thesis by simp
qed


text \<open>
  Claim C10 at a confirmed transaction: the query at 10 of the session started at 0 reports
  357/2336 tokens and stores zero.
\<close>

theorem confirmed_query_witness:
  "returned (get_metrics live_config confirming_node (Some ''0xABC'') 10 10 10 one_session)
     = Inr \<lparr>totalProfit = 357 / 2336, hourlyRate = 357 * 3600 / 23360,
            dailyProfit = 357 * 3600 / 23360 * 24, activePositions = 12,
            pendingRewards = 357 / 23360, total_apy_percent = 9639 / 20,
            metrics_ai_boost = 5 / 2\<rparr>
   \<and> sessions_after (get_metrics live_config confirming_node (Some ''0xABC'') 10 10 10 one_session)
       ''0xabc'' =
      Some \<lparr>start_time = 0, total_earned = 0, last_mint_time = 10, strategies = []\<rparr>"
proof -
  let ?cur = "current_session one_session (lower ''0xABC'') 10 10"
  let ?acc = "total_earned ?cur + fst (calculate_earnings 100000 (10 - start_time ?cur))"
  have a1: "''0xABC'' \<noteq> []" by simp
  have a4: "10 - last_mint_time ?cur \<ge> 5" by (simp add: concrete_defs)
  have a5: "w3 live_config \<noteq> None" by (simp add: concrete_defs)
  have a6: "admin_account live_config \<noteq> None" by (simp add: concrete_defs)
  have a7: "truthy (fst (mint_tokens_to_wallet live_config confirming_node (lower ''0xABC'') ?acc))"
    by (simp add: concrete_defs)
  from confirmed_query_reports_settled_amount [where h = "''0xABC''" and s = one_session
      and cfg = live_config and nd = confirming_node and now = 10 and ?t1.0 = 10 and ?t2.0 = 10,
      OF a1 refl refl a4 a5 a6 a7 refl]
  obtain m sess where
    m: "returned (get_metrics live_config confirming_node (Some ''0xABC'') 10 10 10 one_session) = Inr m"
       "totalProfit m = ?acc"
    and sess: "sessions_after (get_metrics live_config confirming_node (Some ''0xABC'') 10 10 10 one_session)
       (lower ''0xABC'') = Some sess" "total_earned sess = 0" "last_mint_time sess = 10"
    by blast
  have r: "returned (get_metrics live_config confirming_node (Some ''0xABC'') 10 10 10 one_session)
     = Inr \<lparr>totalProfit = 357 / 2336, hourlyRate = 357 * 3600 / 23360,
            dailyProfit = 357 * 3600 / 23360 * 24, activePositions = 12,
            pendingRewards = 357 / 23360, total_apy_percent = 9639 / 20,
            metrics_ai_boost = 5 / 2\<rparr>"
    by (simp add: get_metrics_def metrics_returned [OF a1 refl refl] concrete_defs
        STRATEGIES_def AI_BOOST_def)
  have s: "sessions_after (get_metrics live_config confirming_node (Some ''0xABC'') 10 10 10 one_session)
       ''0xabc'' =
      Some \<lparr>start_time = 0, total_earned = 0, last_mint_time = 10, strategies = []\<rparr>"
    using sess
    by (simp add: get_metrics_def metrics_sessions [OF a1 refl refl] get_metrics_mint_result
        concrete_defs)
  from r s show ?thesis by simp
qed

text \<open>
  Claim C8, as the code has it. Stopping a wallet removes its session. A metrics query for
  the same lowercased address then creates a new session that carries nothing over: its
  start time is the first clock reading of the query, its last mint time the second, and
  its pending amount is the accrual from the first reading to the third, \<open>now\<close> (unless the
  mint is confirmed in this very query, which needs five seconds between the second reading
  and \<open>now\<close>). The amount is zero, with start time and last mint time \<open>now\<close>, when the three
  readings coincide.
\<close>

theorem stop_then_query_creates_session:
  assumes "h \<noteq> []" and "data ''walletAddress'' = Some a" and "lower a = lower h"
    and "stopped = sessions_after (stop_engine data s)"
    and "acc = fst (calculate_earnings 100000 (now - t1))"
    and "created = sessions_after (get_metrics cfg nd (Some h) t1 t2 now stopped) (lower h)"
  shows "stopped (lower h) = None
    \<and> created =
        Some (if now - t2 \<ge> 5 \<and> w3 cfg \<noteq> None \<and> admin_account cfg \<noteq> None
                 \<and> truthy (fst (mint_tokens_to_wallet cfg nd (lower h) acc))
              then \<lparr>start_time = t1, total_earned = 0, last_mint_time = now, strategies = []\<rparr>
              else \<lparr>start_time = t1, total_earned = acc, last_mint_time = t2, strategies = []\<rparr>)
    \<and> (now - t2 < 5 \<longrightarrow>
         created = Some \<lparr>start_time = t1,
                         total_earned = 100000 * (effectiveRate / (365 * 86400)) * (now - t1),
                         last_mint_time = t2, strategies = []\<rparr>)
    \<and> (t1 = now \<and> t2 = now \<longrightarrow>
         created = Some \<lparr>start_time = now, total_earned = 0, last_mint_time = now,
                         strategies = []\<rparr>)"
proof -
  have gone: "stopped (lower h) = None"
    unfolding assms(4) using assms(2,3) by (simp add: stop_engine_sessions)
  have cur: "current_session stopped (lower h) t1 t2 =
      \<lparr>start_time = t1, total_earned = 0, last_mint_time = t2, strategies = []\<rparr>"
    using gone by (simp add: current_session_def)
  have full: "created =
        Some (if now - t2 \<ge> 5 \<and> w3 cfg \<noteq> None \<and> admin_account cfg \<noteq> None
                 \<and> truthy (fst (mint_tokens_to_wallet cfg nd (lower h) acc))
              then \<lparr>start_time = t1, total_earned = 0, last_mint_time = now, strategies = []\<rparr>
              else \<lparr>start_time = t1, total_earned = acc, last_mint_time = t2, strategies = []\<rparr>)"
    unfolding assms(6) assms(5)
    by (simp add: get_metrics_def metrics_sessions [OF assms(1) refl refl] cur
        get_metrics_mint_result)
  have near: "now - t2 < 5 \<longrightarrow>
         created = Some \<lparr>start_time = t1,
                         total_earned = 100000 * (effectiveRate / (365 * 86400)) * (now - t1),
                         last_mint_time = t2, strategies = []\<rparr>"
    unfolding full assms(5) by (simp add: accrual_linear)
  have same: "t1 = now \<and> t2 = now \<longrightarrow>
         created = Some \<lparr>start_time = now, total_earned = 0, last_mint_time = now,
                         strategies = []\<rparr>"
    unfolding full assms(5) by (simp add: accrual_linear)
  from gone full near same show ?thesis by blast
qed

text \<open>
  The claim as stated asks for the amount zero and for start time and last mint time equal
  to \<open>now\<close>. With readings one microsecond apart the amount is positive and the three
  times differ.
\<close>

theorem stop_then_query_counterexample:
  "sessions_after (get_metrics live_config confirming_node (Some ''0xABC'')
       20 (20 + 1 / 1000000) (20 + 2 / 1000000)
       (sessions_after (stop_engine [''walletAddress'' \<mapsto> ''0xabc''] one_session))) ''0xabc''
     = Some \<lparr>start_time = 20, total_earned = 357 / 11680000000,
              last_mint_time = 20 + 1 / 1000000, strategies = []\<rparr>
   \<and> (357 / 11680000000 :: real) \<noteq> 0
   \<and> (20 :: real) \<noteq> 20 + 1 / 1000000
   \<and> (20 + 1 / 1000000 :: real) \<noteq> 20 + 2 / 1000000"
proof -
  have a1: "''0xABC'' \<noteq> []" by simp
  show ?thesis
    by (simp add: get_metrics_def metrics_sessions [OF a1 refl refl] get_metrics_mint_result
        stop_engine_sessions lower_0xabc concrete_defs)
qed

text \<open>
  Claim C8 on the session of \<open>0xabc\<close>, stopped and queried again with readings one
  microsecond apart, and with the three readings at 20.
\<close>

theorem stop_then_query_witness:
  "sessions_after (stop_engine [''walletAddress'' \<mapsto> ''0xabc''] one_session) ''0xabc'' = None
   \<and> sessions_after (get_metrics live_config confirming_node (Some ''0xABC'')
        20 (20 + 1 / 1000000) (20 + 2 / 1000000)
        (sessions_after (stop_engine [''walletAddress'' \<mapsto> ''0xabc''] one_session))) ''0xabc''
      = Some \<lparr>start_time = 20,
               total_earned = 100000 * (effectiveRate / (365 * 86400)) * (2 / 1000000),
               last_mint_time = 20 + 1 / 1000000, strategies = []\<rparr>
   \<and> sessions_after (get_metrics live_config confirming_node (Some ''0xABC'') 20 20 20
        (sessions_after (stop_engine [''walletAddress'' \<mapsto> ''0xabc''] one_session))) ''0xabc''
      = Some \<lparr>start_time = 20, total_earned = 0, last_mint_time = 20, strategies = []\<rparr>"
proof -
  have a1: "''0xABC'' \<noteq> []" by simp
  have a2: "[''walletAddress'' \<mapsto> ''0xabc''] ''walletAddress'' = Some ''0xabc''" by simp
  have a3: "lower ''0xabc'' = lower ''0xABC''" by (simp add: lower_0xabc lower_0xABC)
  note w1 = stop_then_query_creates_session [where data = "[''walletAddress'' \<mapsto> ''0xabc'']"
      and s = one_session and cfg = live_config and nd = confirming_node
      and ?t1.0 = 20 and ?t2.0 = "20 + 1 / 1000000" and now = "20 + 2 / 1000000",
      OF a1 a2 a3 refl refl refl]
  note w2 = stop_then_query_creates_session [where data = "[''walletAddress'' \<mapsto> ''0xabc'']"
      and s = one_session and cfg = live_config and nd = confirming_node
      and ?t1.0 = 20 and ?t2.0 = 20 and now = 20,
      OF a1 a2 a3 refl refl refl]
  have p0: "sessions_after (stop_engine [''walletAddress'' \<mapsto> ''0xabc''] one_session) ''0xabc'' = None"
    using w2 by (simp add: lower_0xABC)
  have p1: "sessions_after (get_metrics live_config confirming_node (Some ''0xABC'')
        20 (20 + 1 / 1000000) (20 + 2 / 1000000)
        (sessions_after (stop_engine [''walletAddress'' \<mapsto> ''0xabc''] one_session))) ''0xabc''
      = Some \<lparr>start_time = 20,
               total_earned = 100000 * (effectiveRate / (365 * 86400)) * (2 / 1000000),
               last_mint_time = 20 + 1 / 1000000, strategies = []\<rparr>"
    using w1 by (simp add: lower_0xABC accrual_linear)
  have p2: "sessions_after (get_metrics live_config confirming_node (Some ''0xABC'') 20 20 20
        (sessions_after (stop_engine [''walletAddress'' \<mapsto> ''0xabc''] one_session))) ''0xabc''
      = Some \<lparr>start_time = 20, total_earned = 0, last_mint_time = 20, strategies = []\<rparr>"
    using w2 by (simp add: lower_0xABC accrual_linear)
  from p0 p1 p2 show ?thesis by simp
qed

text \<open>
  Claim C3. Every metrics query accrues over the time since the start of the session, not
  since the previous query. After a start at \<open>t0\<close>, any sequence of metrics queries for
  the wallet at the times \<open>now\<^sub>1, ..., now\<^sub>k\<close> in which no mint is confirmed leaves the
  pending amount \<open>100000 * effectiveRate / (365 * 86400)\<close> times the sum of the session
  ages \<open>now\<^sub>i - t0\<close>; the start time is still \<open>t0\<close>.
\<close>

theorem repeated_queries_accrue_from_start:
  assumes "h \<noteq> []"
    and "lower (walletAddress req) = lower h"
    and "started = sessions_after (start_engine req t0 t0' s)"
    and "\<not> (\<exists>e \<in> set (snd (poll cfg (Some h) qs started)). is_minted e)"
  shows "fst (poll cfg (Some h) qs started) (lower h) =
     Some \<lparr>start_time = t0,
           total_earned = 100000 * (effectiveRate / (365 * 86400))
                            * (\<Sum>(t1, t2, now, nd) \<leftarrow> qs. now - t0),
           last_mint_time = t0', strategies = req_strategies req\<rparr>"
proof -
  let ?x = "\<lparr>start_time = t0, total_earned = 0, last_mint_time = t0',
             strategies = req_strategies req\<rparr>"
  have st: "started (lower h) = Some ?x"
    unfolding assms(3) using assms(2) by (simp add: start_engine_def Let_def)
  have "fst (poll cfg (Some h) qs started) =
       started(lower h \<mapsto> ?x\<lparr>total_earned := total_earned ?x
          + (\<Sum>(t1, t2, now, nd) \<leftarrow> qs. fst (calculate_earnings 100000 (now - start_time ?x)))\<rparr>)"
    by (rule poll_unminted [OF assms(1) st assms(4)])
  then show ?thesis by (simp add: sum_accruals)
qed

text \<open>
  Claim C3 at two queries, 6 and 8 seconds after the start, whose transactions revert: the
  amount is the rate times 14 seconds.
\<close>

theorem repeated_queries_witness:
  "fst (poll live_config (Some ''0xABC'') [(6, 6, 6, reverting_node), (8, 8, 8, reverting_node)]
        (sessions_after (start_engine \<lparr>walletAddress = ''0xABC'', miningContract = [],
            yieldAggregator = [], req_strategies = [''compound'']\<rparr> 0 0 Map.empty)))
     ''0xabc'' =
   Some \<lparr>start_time = 0, total_earned = 100000 * (effectiveRate / (365 * 86400)) * 14,
         last_mint_time = 0, strategies = [''compound'']\<rparr>"
proof -
  let ?req = "\<lparr>walletAddress = ''0xABC'', miningContract = [],
            yieldAggregator = [], req_strategies = [''compound'']\<rparr>"
  let ?qs = "[(6, 6, 6, reverting_node), (8, 8, 8, reverting_node)]"
  have a1: "''0xABC'' \<noteq> []" by simp
  have a2: "lower (walletAddress ?req) = lower ''0xABC''" by simp
  have a4: "\<not> (\<exists>e \<in> set (snd (poll live_config (Some ''0xABC'') ?qs
       (sessions_after (start_engine ?req 0 0 Map.empty)))). is_minted e)"
    by (simp add: start_engine_def get_metrics_def metrics_sessions [OF a1 refl refl]
        metrics_events [OF a1 refl refl] concrete_defs)
  from repeated_queries_accrue_from_start [where h = "''0xABC''" and req = ?req and ?t0.0 = 0
      and t0' = 0 and s = Map.empty and cfg = live_config and qs = ?qs, OF a1 a2 refl a4]
  show ?thesis by (simp add: lower_0xABC)
qed


text \<open>
  Claim C4. In every state reached from the empty session map by requests whose clock
  readings do not decrease, no pending amount is negative, before and after a further
  request (start, metrics query or stop). For every wallet tracked after the request, the
  amount is zero or the amount before the request (zero when the wallet was not tracked)
  plus a non-negative increment. The amount of a wallet falls only to zero, and only when
  the request is a start for that wallet or a metrics query that logs a confirmed mint for
  it.
\<close>

theorem pending_amount_invariant:
  assumes "chronological c0 (rs @ [r])"
    and "before = exec cfg rs Map.empty"
    and "after = fst (step cfg r before)"
  shows "(\<forall>w x. before w = Some x \<longrightarrow> 0 \<le> total_earned x)
     \<and> (\<forall>w y. after w = Some y \<longrightarrow> 0 \<le> total_earned y)
     \<and> (\<forall>w y. after w = Some y \<longrightarrow>
            (total_earned y = 0 \<or> (\<exists>inc. 0 \<le> inc \<and> total_earned y = pending before w + inc)))
     \<and> (\<forall>w x y. before w = Some x \<and> after w = Some y \<and> total_earned y < total_earned x \<longrightarrow>
            total_earned y = 0
            \<and> (starts r w \<or> (\<exists>a. LogMinted w a \<in> set (snd (step cfg r before)))))"
proof -
  have e: "within_clock c0 Map.empty" by (simp add: within_clock_def)
  from exec_within_clock [OF e assms(1), of cfg]
  have wb: "within_clock (foldl clock_after c0 rs) before"
    and ch: "chronological (foldl clock_after c0 rs) [r]"
    unfolding assms(2) by simp_all
  have "within_clock (clock_after (foldl clock_after c0 rs) r) after"
    unfolding assms(3) by (rule step_within_clock [OF wb ch])
  then have pa: "\<forall>w y. after w = Some y \<longrightarrow> 0 \<le> total_earned y"
    by (simp add: within_clock_def)
  from wb have pb: "\<forall>w x. before w = Some x \<longrightarrow> 0 \<le> total_earned x"
    by (simp add: within_clock_def)
  from pa pb step_effect [OF wb ch assms(3)] show ?thesis by blast
qed

text \<open>
  Claim C4 on a run: start at 0, a query at 6 whose transaction reverts (the amount grows),
  a query at 10 whose transaction confirms (the amount falls to zero and the mint is logged).
\<close>

theorem pending_amount_witness:
  "chronological 0
     ([Start \<lparr>walletAddress = ''0xABC'', miningContract = [], yieldAggregator = [],
              req_strategies = []\<rparr> 0 0,
       Metrics (Some ''0xABC'') 6 6 6 reverting_node]
      @ [Metrics (Some ''0xABC'') 10 10 10 confirming_node])
   \<and> map_option total_earned
        (exec live_config
          [Start \<lparr>walletAddress = ''0xABC'', miningContract = [], yieldAggregator = [],
                  req_strategies = []\<rparr> 0 0,
           Metrics (Some ''0xABC'') 6 6 6 reverting_node] Map.empty ''0xabc'')
       = Some (1071 / 11680)
   \<and> map_option total_earned
        (fst (step live_config (Metrics (Some ''0xABC'') 10 10 10 confirming_node)
          (exec live_config
            [Start \<lparr>walletAddress = ''0xABC'', miningContract = [], yieldAggregator = [],
                    req_strategies = []\<rparr> 0 0,
             Metrics (Some ''0xABC'') 6 6 6 reverting_node] Map.empty)) ''0xabc'')
       = Some 0
   \<and> LogMinted ''0xabc'' (357 / 1460)
       \<in> set (snd (step live_config (Metrics (Some ''0xABC'') 10 10 10 confirming_node)
          (exec live_config
            [Start \<lparr>walletAddress = ''0xABC'', miningContract = [], yieldAggregator = [],
                    req_strategies = []\<rparr> 0 0,
             Metrics (Some ''0xABC'') 6 6 6 reverting_node] Map.empty)))"
proof -
  let ?rs = "[Start \<lparr>walletAddress = ''0xABC'', miningContract = [], yieldAggregator = [],
              req_strategies = []\<rparr> 0 0,
       Metrics (Some ''0xABC'') 6 6 6 reverting_node]"
  let ?r = "Metrics (Some ''0xABC'') 10 10 10 confirming_node"
  have a1: "''0xABC'' \<noteq> []" by simp
  have ch: "chronological 0 (?rs @ [?r])" by simp
  have ex: "exec live_config ?rs Map.empty =
      [''0xabc'' \<mapsto> \<lparr>start_time = 0, total_earned = 1071 / 11680, last_mint_time = 0,
                      strategies = []\<rparr>]"
    by (simp add: start_engine_def get_metrics_def metrics_sessions [OF a1 refl refl]
        get_metrics_mint_result concrete_defs)
  have st: "step live_config ?r
      [''0xabc'' \<mapsto> \<lparr>start_time = 0, total_earned = 1071 / 11680, last_mint_time = 0,
                      strategies = []\<rparr>] =
      ([''0xabc'' \<mapsto> \<lparr>start_time = 0, total_earned = 0, last_mint_time = 10, strategies = []\<rparr>],
       [MintCall ''0xabc'' (357 / 1460), GasPriceQuery, TransactionCountQuery ''0xAdmin'',
        ChainIdQuery,
        BuildTransaction \<lparr>contract = ''0x8502496d6739dd6e18ced318c4b5fc12a5fb2c2c'',
           mint_to = ''0xabc'', mint_amount = 244520547945205479, tx_from = ''0xAdmin'',
           tx_nonce = 7, tx_gas = 200000, tx_gasPrice = 12, tx_chainId = 1\<rparr>,
        SignTransaction ''tx'', SendRawTransaction ''raw'', WaitForReceipt ''0xhash'' 120,
        LogMinted ''0xabc'' (357 / 1460)])"
    by (simp add: get_metrics_def metrics_sessions [OF a1 refl refl]
        metrics_events [OF a1 refl refl] get_metrics_mint_result concrete_defs)
  from pending_amount_invariant [where ?c0.0 = 0 and rs = ?rs and r = ?r and cfg = live_config,
      OF ch refl refl]
  show ?thesis
    unfolding ex st using ch by simp
qed

end
